theory Spec2Isabelle
  imports Main "HOL-Library.Word"
begin

unbundle bit_operations_syntax

section \<open>Addresses, ranges and the range-keyed map\<close>

type_synonym Address = "64 word"
type_synonym Count = "64 word"

text \<open>
  Modelled from the spec: the header declaring \<open>Range\<close> is not among the sources.
  A range is the half-open interval from \<open>rstart\<close> to \<open>rend\<close> (the fields
  \<open>start\<close> and \<open>end\<close> read by both source files).
\<close>

record Range =
  rstart :: Address
  rend :: Address

text \<open>
  Modelled from the spec: the two-argument constructor \<open>Range(start, end)\<close> used
  throughout the sources.
\<close>

definition Range2 :: "Address \<Rightarrow> Address \<Rightarrow> Range" where
  "Range2 s e = \<lparr>rstart = s, rend = e\<rparr>"

text \<open>
  Modelled from the spec: the point-valued range \<open>Range(a)\<close>, which compares equal
  to every range that contains \<open>a\<close>; it is the one-address interval at \<open>a\<close>, with the
  end computed in 64 bits.
\<close>

definition Range1 :: "Address \<Rightarrow> Range" where
  "Range1 a = \<lparr>rstart = a, rend = a + 1\<rparr>"

text \<open>
  Modelled from the spec: the ordering of ranges, \<open>r1 < r2\<close> iff
  \<open>r1.end \<le> r2.start\<close>. It is the comparator of every \<open>std::map\<close> keyed by
  \<open>Range\<close>.
\<close>

definition range_less :: "Range \<Rightarrow> Range \<Rightarrow> bool" where
  "range_less a b \<longleftrightarrow> rend a \<le> rstart b"

text \<open>
  A \<open>std::map<Range, T>\<close> is the list of its elements in iteration order, and an
  iterator is a position in that list (the length of the list for \<open>end()\<close>). The
  three operations the sources use follow the red-black tree of the C++ library on a
  sequence that the comparator partitions:
  \<^item> \<open>find\<close> takes the lower bound of the key, the first element that is not less
    than the key, and reports it unless there is none or the key is less than it;
  \<^item> \<open>insert\<close> descends to the insertion point, just before the first element
    greater than the key; the element before that point decides: when it is less than
    the key the new element is linked in, otherwise it is the element that blocks the
    insertion and the map is left alone. The result carries the position of the
    inserted or blocking element and the flag of \<open>std::pair<iterator, bool>\<close>;
  \<^item> \<open>erase\<close> unlinks the element at a position.
\<close>

type_synonym 'v RangeMap = "(Range \<times> 'v) list"

fun lower_bound :: "Range \<Rightarrow> 'v RangeMap \<Rightarrow> nat" where
  "lower_bound k [] = 0"
| "lower_bound k (e # es) = (if range_less (fst e) k then Suc (lower_bound k es) else 0)"

definition rmap_find :: "Range \<Rightarrow> 'v RangeMap \<Rightarrow> nat option" where
  "rmap_find k m =
     (let j = lower_bound k m
      in if j = length m \<or> range_less k (fst (m ! j)) then None else Some j)"

definition rmap_insert :: "Range \<times> 'v \<Rightarrow> 'v RangeMap \<Rightarrow> 'v RangeMap \<times> nat \<times> bool" where
  "rmap_insert kv m =
     (let pre = takeWhile (\<lambda>e. \<not> range_less (fst kv) (fst e)) m;
          post = dropWhile (\<lambda>e. \<not> range_less (fst kv) (fst e)) m
      in if pre \<noteq> [] \<and> \<not> range_less (fst (last pre)) (fst kv)
         then (m, length pre - 1, False)
         else (pre @ kv # post, length pre, True))"

definition rmap_erase :: "nat \<Rightarrow> 'v RangeMap \<Rightarrow> 'v RangeMap" where
  "rmap_erase i m = take i m @ drop (Suc i) m"

text \<open>
  A \<open>std::map<Address, T>\<close> (the entries of a memory object, the branches of an
  entry) is the list of its elements in ascending key order.
\<close>

type_synonym 'v AddrMap = "(Address \<times> 'v) list"

fun amap_insert :: "Address \<Rightarrow> 'v \<Rightarrow> 'v AddrMap \<Rightarrow> 'v AddrMap" where
  "amap_insert k v [] = [(k, v)]"
| "amap_insert k v (e # es) =
     (if k < fst e then (k, v) # e # es
      else if fst e < k then e # amap_insert k v es
      else e # es)"

fun amap_modify :: "Address \<Rightarrow> ('v \<Rightarrow> 'v) \<Rightarrow> 'v AddrMap \<Rightarrow> 'v AddrMap" where
  "amap_modify k f [] = []"
| "amap_modify k f (e # es) =
     (if fst e = k then (k, f (snd e)) # es else e # amap_modify k f es)"

section \<open>The profile (Profile.cpp)\<close>

subsection \<open>Entries and memory objects\<close>

record EntryData =
  count :: Count
  branches :: "Count AddrMap"

text \<open>The constructor \<open>EntryData(count)\<close>: the given count and no branches.\<close>

definition EntryData_new :: "Count \<Rightarrow> EntryData" where
  "EntryData_new c = \<lparr>count = c, branches = []\<rparr>"

definition EntryData_appendBranch :: "Address \<Rightarrow> Count \<Rightarrow> EntryData \<Rightarrow> EntryData" where
  "EntryData_appendBranch address cnt e =
     (case map_of (branches e) address of
        None \<Rightarrow> e\<lparr>branches := amap_insert address cnt (branches e)\<rparr>
      | Some _ \<Rightarrow> e\<lparr>branches := amap_modify address (\<lambda>w. w + cnt) (branches e)\<rparr>)"


record MemoryObjectData =
  fileName :: string
  entries :: "EntryData AddrMap"




subsection \<open>Symbols and branch fixup\<close>

record SymbolData =
  name :: string

type_synonym SymbolStorage = "SymbolData RangeMap"
type_synonym MemoryObjectStorage = "MemoryObjectData RangeMap"

text \<open>The body of the inner loop of \<open>MemoryObjectData::fixupBranches\<close>.\<close>

definition fixupBranch :: "SymbolStorage \<Rightarrow> EntryData \<Rightarrow> Address \<times> Count \<Rightarrow> EntryData" where
  "fixupBranch symbols fixedEntry branch =
     (case rmap_find (Range1 (fst branch)) symbols of
        Some symIt \<Rightarrow>
          EntryData_appendBranch (rstart (fst (symbols ! symIt))) (snd branch) fixedEntry
      | None \<Rightarrow> EntryData_appendBranch (fst branch) (snd branch) fixedEntry)"

text \<open>
  The body of the outer loop: an entry without branches is skipped; otherwise the
  entry is swapped with \<open>fixedEntry\<close>, built from the entry's count and its branches
  in key order.
\<close>

definition fixupEntry :: "SymbolStorage \<Rightarrow> EntryData \<Rightarrow> EntryData" where
  "fixupEntry symbols entryData =
     (if length (branches entryData) = 0 then entryData
      else foldl (fixupBranch symbols) (EntryData_new (count entryData)) (branches entryData))"

definition MemoryObjectData_fixupBranches ::
  "SymbolStorage \<Rightarrow> MemoryObjectData \<Rightarrow> MemoryObjectData" where
  "MemoryObjectData_fixupBranches symbols obj =
     obj\<lparr>entries := map (\<lambda>entry. (fst entry, fixupEntry symbols (snd entry))) (entries obj)\<rparr>"

subsection \<open>Events\<close>

record mmap_event =
  pid :: "32 word"
  tid :: "32 word"
  address :: Address
  length_m :: "64 word"
  pageOffset :: "64 word"
  mmap_fileName :: string






subsection \<open>The aggregator\<close>

record ProfilePrivate =
  memoryObjects :: MemoryObjectStorage
  symbols :: SymbolStorage
  mmapEventCount :: "64 word"
  goodSamplesCount :: "64 word"
  badSamplesCount :: "64 word"










definition Profile_fixupBranches :: "ProfilePrivate \<Rightarrow> ProfilePrivate" where
  "Profile_fixupBranches d =
     d\<lparr>memoryObjects :=
          map (\<lambda>obj. (fst obj, MemoryObjectData_fixupBranches (symbols d) (snd obj)))
            (memoryObjects d)\<rparr>"

section \<open>The address resolver (AddressResolver.cpp)\<close>

subsection \<open>The ELF file as libelf presents it\<close>

text \<open>
  The constants of the ELF format that the source tests, with the values the format
  gives them, and the two macros that split \<open>st_info\<close>.
\<close>

definition PT_LOAD :: "32 word" where "PT_LOAD = 1"
definition SHT_PROGBITS :: "32 word" where "SHT_PROGBITS = 1"
definition SHT_SYMTAB :: "32 word" where "SHT_SYMTAB = 2"
definition SHT_DYNSYM :: "32 word" where "SHT_DYNSYM = 11"
definition STT_FUNC :: "8 word" where "STT_FUNC = 2"
definition SHN_UNDEF :: "16 word" where "SHN_UNDEF = 0"

definition GELF_ST_TYPE :: "8 word \<Rightarrow> 8 word" where
  "GELF_ST_TYPE info = info AND 0xf"

definition GELF_ST_BIND :: "8 word \<Rightarrow> 8 word" where
  "GELF_ST_BIND info = drop_bit 4 info"

text \<open>
  A symbol as \<open>gelf_getsym\<close> returns it; \<open>st_name\<close> is the string that
  \<open>elf_strptr\<close> finds at the symbol's name offset in the linked string table.
\<close>

record GElf_Sym =
  st_name :: string
  st_info :: "8 word"
  st_shndx :: "16 word"
  st_value :: "64 word"
  st_size :: "64 word"

record GElf_Phdr =
  p_type :: "32 word"
  p_vaddr :: "64 word"

record Elf32_Phdr =
  p_type32 :: "32 word"
  p_vaddr32 :: "32 word"

text \<open>
  The data of a \<open>.gnu.prelink_undo\<close> section after the two calls of
  \<open>gelf_xlatetom\<close>: the class found in the decoded header and the \<open>e_phnum\<close>
  program headers that follow it, in the layout of that class.
\<close>

datatype PrelinkUndoData = Undo32 "Elf32_Phdr list" | Undo64 "GElf_Phdr list"

text \<open>
  A section: its type, the name \<open>elf_strptr\<close> finds for it, the symbols that
  \<open>gelf_getsym\<close> yields for the indices below \<open>symbolCount\<close>, and the decoded
  prelink-undo data.
\<close>

record Elf_Scn =
  sh_type :: "32 word"
  sh_name :: string
  sh_symbols :: "GElf_Sym list"
  sh_undo :: PrelinkUndoData

record Elf =
  e_phdrs :: "GElf_Phdr list"
  e_sections :: "Elf_Scn list"

datatype Section = SymTab | DynSym | DebugInfo | DebugLink | PrelinkUndo

definition SectionCount :: nat where
  "SectionCount = 5"

subsection \<open>ElfHolder\<close>

record ElfHolder =
  baseAddress_h :: "64 word"
  elf_h :: "Elf option"
  sections_h :: "Section \<Rightarrow> Elf_Scn option"

text \<open>The first loop of \<open>loadInfo\<close>: the address of the first loadable segment.\<close>

fun detect_base :: "GElf_Phdr list \<Rightarrow> 64 word \<Rightarrow> 64 word" where
  "detect_base [] b = b"
| "detect_base (phdr # rest) b =
     (if p_type phdr = PT_LOAD then p_vaddr phdr else detect_base rest b)"

text \<open>The second loop of \<open>loadInfo\<close>, with its counter \<open>needToFind\<close>.\<close>

fun find_sections ::
  "Elf_Scn list \<Rightarrow> nat \<Rightarrow> (Section \<Rightarrow> Elf_Scn option) \<Rightarrow> (Section \<Rightarrow> Elf_Scn option)" where
  "find_sections [] needToFind secs = secs"
| "find_sections (scn # rest) needToFind secs =
     (if needToFind > 0 then
        (if sh_type scn = SHT_SYMTAB then
           find_sections rest (needToFind - 1) (secs(SymTab := Some scn))
         else if sh_type scn = SHT_DYNSYM then
           find_sections rest (needToFind - 1) (secs(DynSym := Some scn))
         else if sh_type scn = SHT_PROGBITS then
           (if sh_name scn = ''.debug_info'' then
              find_sections rest (needToFind - 1) (secs(DebugInfo := Some scn))
            else if sh_name scn = ''.gnu_debuglink'' then
              find_sections rest (needToFind - 1) (secs(DebugLink := Some scn))
            else if sh_name scn = ''.gnu.prelink_undo'' then
              find_sections rest (needToFind - 1) (secs(PrelinkUndo := Some scn))
            else find_sections rest needToFind secs)
         else find_sections rest needToFind secs)
      else secs)"

text \<open>
  The constructor and \<open>open\<close>: both reset the base address and the section table
  and run \<open>loadInfo\<close>, which returns at once when \<open>elf_begin\<close> gave no handle.
  The argument is what \<open>elf_begin\<close> returns for the file name.
\<close>

definition ElfHolder_open :: "Elf option \<Rightarrow> ElfHolder" where
  "ElfHolder_open elf =
     (case elf of
        None \<Rightarrow> \<lparr>baseAddress_h = 0, elf_h = None, sections_h = (\<lambda>s. None)\<rparr>
      | Some e \<Rightarrow>
          \<lparr>baseAddress_h = detect_base (e_phdrs e) 0, elf_h = Some e,
           sections_h = find_sections (e_sections e) SectionCount (\<lambda>s. None)\<rparr>)"

definition getSection :: "ElfHolder \<Rightarrow> Section \<Rightarrow> Elf_Scn option" where
  "getSection elfh s = sections_h elfh s"

subsection \<open>Loading symbols\<close>

record ARSymbolData =
  ar_size :: "64 word"
  ar_name :: string
  ar_binding :: "8 word"

text \<open>
  The two constructors of \<open>ARSymbolData\<close>. The second one leaves \<open>binding\<close>
  uninitialised in the source; nothing reads the binding of a symbol built with it, and
  the model puts 0 there.
\<close>

definition ARSymbolData_sym :: "GElf_Sym \<Rightarrow> ARSymbolData" where
  "ARSymbolData_sym elfSymbol =
     \<lparr>ar_size = st_size elfSymbol, ar_name = [], ar_binding = GELF_ST_BIND (st_info elfSymbol)\<rparr>"

definition ARSymbolData_size :: "64 word \<Rightarrow> ARSymbolData" where
  "ARSymbolData_size sz = \<lparr>ar_size = sz, ar_name = [], ar_binding = 0\<rparr>"

type_synonym ARSymbolStorage = "ARSymbolData RangeMap"

record AddressResolverPrivate =
  baseAddress :: "64 word"
  origBaseAddress :: "64 word"
  ar_symbols :: ARSymbolStorage

text \<open>The body of the loop of \<open>loadSymbolsFromSection\<close>, for one symbol.\<close>

definition loadSymbol :: "AddressResolverPrivate \<Rightarrow> GElf_Sym \<Rightarrow> AddressResolverPrivate" where
  "loadSymbol d elfSymbol =
     (if GELF_ST_TYPE (st_info elfSymbol) \<noteq> STT_FUNC \<or> st_shndx elfSymbol = SHN_UNDEF then d
      else
        (let symbolData = ARSymbolData_sym elfSymbol;
             symStart = st_value elfSymbol - origBaseAddress d + baseAddress d;
             symEnd = symStart + (if st_size elfSymbol \<noteq> 0 then st_size elfSymbol else 1);
             insResult = rmap_insert (Range2 symStart symEnd, symbolData) (ar_symbols d);
             m = fst insResult;
             pos = fst (snd insResult)
         in if snd (snd insResult) then
              d\<lparr>ar_symbols :=
                   m[pos := (fst (m ! pos), (snd (m ! pos))\<lparr>ar_name := st_name elfSymbol\<rparr>)]\<rparr>
            else
              (let oldSymbolData = snd (m ! pos)
               in if (ar_size oldSymbolData = 0 \<and> ar_size symbolData \<noteq> 0)
                     \<or> ar_binding oldSymbolData < ar_binding symbolData
                  then
                    d\<lparr>ar_symbols :=
                         fst (rmap_insert
                                (Range2 symStart symEnd,
                                 symbolData\<lparr>ar_name := st_name elfSymbol\<rparr>)
                                (rmap_erase pos m))\<rparr>
                  else d)))"

definition loadSymbolsFromSection ::
  "Elf_Scn \<Rightarrow> AddressResolverPrivate \<Rightarrow> AddressResolverPrivate" where
  "loadSymbolsFromSection section d = foldl loadSymbol (d\<lparr>ar_symbols := []\<rparr>) (sh_symbols section)"

subsection \<open>The original base address of a prelinked file\<close>

fun orig_base32 :: "Elf32_Phdr list \<Rightarrow> 64 word \<Rightarrow> 64 word" where
  "orig_base32 [] b = b"
| "orig_base32 (phdr # rest) b =
     (if p_type32 phdr = PT_LOAD then ucast (p_vaddr32 phdr) else orig_base32 rest b)"

fun orig_base64 :: "GElf_Phdr list \<Rightarrow> 64 word \<Rightarrow> 64 word" where
  "orig_base64 [] b = b"
| "orig_base64 (phdr # rest) b =
     (if p_type phdr = PT_LOAD then p_vaddr phdr else orig_base64 rest b)"

definition setOriginalBaseAddress ::
  "Elf_Scn \<Rightarrow> AddressResolverPrivate \<Rightarrow> AddressResolverPrivate" where
  "setOriginalBaseAddress section d =
     (case sh_undo section of
        Undo32 phdr32 \<Rightarrow> d\<lparr>origBaseAddress := orig_base32 phdr32 (origBaseAddress d)\<rparr>
      | Undo64 phdr64 \<Rightarrow> d\<lparr>origBaseAddress := orig_base64 phdr64 (origBaseAddress d)\<rparr>)"

subsection \<open>Gap filling\<close>

text \<open>
  The loop of \<open>constructFakeSymbols\<close> over the old map, from the iterator \<open>symIt\<close>
  on (the list is what is left of the old map there), with \<open>newSymbols\<close> and
  \<open>prevEnd\<close>.
\<close>

fun fake_loop ::
  "64 word \<Rightarrow> 64 word \<Rightarrow> string \<Rightarrow> ARSymbolStorage \<Rightarrow> ARSymbolStorage \<Rightarrow> 64 word
     \<Rightarrow> ARSymbolStorage \<times> 64 word" where
  "fake_loop base objectSize baseName [] newSymbols prevEnd = (newSymbols, prevEnd)"
| "fake_loop base objectSize baseName (symIt # rest) newSymbols prevEnd =
     (let symRange = fst symIt;
          newSymbols1 =
            (if rstart symRange - prevEnd \<ge> 4 then
               fst (rmap_insert (Range2 prevEnd (rstart symRange),
                                 ARSymbolData_size (rstart symRange - prevEnd)) newSymbols)
             else newSymbols)
      in if ar_size (snd symIt) = 0 then
           (let newEnd = (case rest of [] \<Rightarrow> base + objectSize
                          | nextSymIt # _ \<Rightarrow> rstart (fst nextSymIt));
                newSymbolData =
                  (ARSymbolData_size (newEnd - rstart symRange))
                    \<lparr>ar_name := ar_name (snd symIt) @ ''@'' @ baseName\<rparr>
            in fake_loop base objectSize baseName rest
                 (fst (rmap_insert (Range2 (rstart symRange) newEnd, newSymbolData) newSymbols1))
                 newEnd)
         else
           fake_loop base objectSize baseName rest (fst (rmap_insert symIt newSymbols1))
             (rend symRange))"

definition constructFakeSymbols ::
  "64 word \<Rightarrow> string \<Rightarrow> AddressResolverPrivate \<Rightarrow> AddressResolverPrivate" where
  "constructFakeSymbols objectSize baseName d =
     (let r = fake_loop (baseAddress d) objectSize baseName (ar_symbols d) [] (baseAddress d);
          newSymbols = fst r;
          prevEnd = snd r
      in if baseAddress d + objectSize - prevEnd \<ge> 4 then
           d\<lparr>ar_symbols :=
                fst (rmap_insert (Range2 prevEnd (baseAddress d + objectSize),
                                  ARSymbolData_size (baseAddress d + objectSize - prevEnd))
                       newSymbols)\<rparr>
         else d\<lparr>ar_symbols := newSymbols\<rparr>)"

subsection \<open>The constructor\<close>

text \<open>
  The constructor up to the call of \<open>constructFakeSymbols\<close>. \<open>mainFile\<close> is what
  \<open>elf_begin\<close> returns for \<open>fileName\<close> and \<open>debugFile\<close> what it returns for
  \<open>/usr/lib/debug\<close> + \<open>fileName\<close> + \<open>.debug\<close>.
\<close>

definition AddressResolver_load :: "Elf option \<Rightarrow> Elf option \<Rightarrow> AddressResolverPrivate" where
  "AddressResolver_load mainFile debugFile =
     (let elfh = ElfHolder_open mainFile;
          d0 = \<lparr>baseAddress = baseAddress_h elfh, origBaseAddress = baseAddress_h elfh,
                ar_symbols = []\<rparr>;
          symTabLoaded = (getSection elfh SymTab \<noteq> None);
          d1 = (case getSection elfh SymTab of
                  Some scn \<Rightarrow> loadSymbolsFromSection scn d0
                | None \<Rightarrow>
                    (case getSection elfh DynSym of
                       Some scn \<Rightarrow> loadSymbolsFromSection scn d0
                     | None \<Rightarrow> d0));
          d2 = (case getSection elfh PrelinkUndo of
                  Some undo \<Rightarrow>
                    (if getSection elfh DebugLink \<noteq> None then setOriginalBaseAddress undo d1
                     else d1)
                | None \<Rightarrow> d1)
      in if getSection elfh DebugLink \<noteq> None \<and> \<not> symTabLoaded then
           (case getSection (ElfHolder_open debugFile) SymTab of
              Some scn \<Rightarrow> loadSymbolsFromSection scn d2
            | None \<Rightarrow> d2)
         else d2)"

definition AddressResolver ::
  "Elf option \<Rightarrow> Elf option \<Rightarrow> 64 word \<Rightarrow> string \<Rightarrow> AddressResolverPrivate" where
  "AddressResolver mainFile debugFile objectSize baseName =
     constructFakeSymbols objectSize baseName (AddressResolver_load mainFile debugFile)"

subsection \<open>Resolving entries\<close>

text \<open>
  \<open>constructSymbolName\<close>: the stream prints the address in lower-case hexadecimal
  without leading zeros.
\<close>

definition hex_digit :: "nat \<Rightarrow> char" where
  "hex_digit n = ''0123456789abcdef'' ! n"

fun hex_of_nat :: "nat \<Rightarrow> string" where
  "hex_of_nat n =
     (if n < 16 then [hex_digit n] else hex_of_nat (n div 16) @ [hex_digit (n mod 16)])"

definition constructSymbolName :: "64 word \<Rightarrow> string" where
  "constructSymbolName addr = ''func_'' @ hex_of_nat (unat addr)"

text \<open>
  The condition part of the \<open>do ... while\<close> of \<open>resolve\<close>, after \<open>first\<close> has
  been advanced once: entries are passed over while their adjusted address is below
  the end of the symbol.
\<close>

fun skip_entries :: "64 word \<Rightarrow> 64 word \<Rightarrow> 'a AddrMap \<Rightarrow> 'a AddrMap" where
  "skip_entries adjust symEnd [] = []"
| "skip_entries adjust symEnd (e # es) =
     (if fst e - adjust < symEnd then skip_entries adjust symEnd es else e # es)"

function resolve_loop ::
  "64 word \<Rightarrow> ARSymbolStorage \<Rightarrow> 'a AddrMap \<Rightarrow> SymbolStorage \<Rightarrow> SymbolStorage" where
  "resolve_loop adjust arSymbols [] outSymbols = outSymbols"
| "resolve_loop adjust arSymbols (e # es) outSymbols =
     (case rmap_find (Range1 (fst e - adjust)) arSymbols of
        None \<Rightarrow> resolve_loop adjust arSymbols es outSymbols
      | Some arSymIt \<Rightarrow>
          (let arSym = arSymbols ! arSymIt;
               symbol =
                 (Range2 (rstart (fst arSym) + adjust) (rend (fst arSym) + adjust),
                  \<lparr>name = (if ar_name (snd arSym) = []
                            then constructSymbolName (rstart (fst arSym))
                            else ar_name (snd arSym))\<rparr>)
           in resolve_loop adjust arSymbols (skip_entries adjust (rend (fst arSym)) es)
                (fst (rmap_insert symbol outSymbols))))"
  by pat_completeness auto
termination
proof (relation "measure (\<lambda>(adjust, arSymbols, es, outSymbols). length es)")
  have skip_le: "length (skip_entries a b xs) \<le> length xs" for a b and xs :: "'a AddrMap"
    by (induction xs) auto
  show "wf (measure (\<lambda>(adjust, arSymbols, es, outSymbols). length es))"
    by simp
  show "((adjust, arSymbols, es, outSymbols), adjust, arSymbols, e # es, outSymbols)
          \<in> measure (\<lambda>(adjust, arSymbols, es, outSymbols). length es)"
    for adjust arSymbols es outSymbols and e :: "Address \<times> 'a"
    by simp
  show "((adjust, arSymbols, skip_entries adjust (rend (fst xb)) es,
           fst (rmap_insert xc outSymbols)), adjust, arSymbols, e # es, outSymbols)
          \<in> measure (\<lambda>(adjust, arSymbols, es, outSymbols). length es)"
    for adjust arSymbols es outSymbols xb xc and e :: "Address \<times> 'a"
    using skip_le [of adjust "rend (fst xb)" es] by simp
qed

definition resolve ::
  "AddressResolverPrivate \<Rightarrow> 'a AddrMap \<Rightarrow> 64 word \<Rightarrow> SymbolStorage \<Rightarrow> SymbolStorage" where
  "resolve d es loadBase outSymbols = resolve_loop (loadBase - baseAddress d) (ar_symbols d) es outSymbols"

section \<open>Notions of the specification\<close>

text \<open>An address lies in a range.\<close>

definition contains :: "Range \<Rightarrow> Address \<Rightarrow> bool" where
  "contains r a \<longleftrightarrow> rstart r \<le> a \<and> a < rend r"






text \<open>
  The target that branch fixup gives to a branch into \<open>t\<close>: the start of the symbol
  that the lookup finds, or \<open>t\<close> itself.
\<close>

definition snap :: "SymbolStorage \<Rightarrow> Address \<Rightarrow> Address" where
  "snap syms t = (case rmap_find (Range1 t) syms of Some i \<Rightarrow> rstart (fst (syms ! i)) | None \<Rightarrow> t)"

text \<open>
  The memory object that contains an address, as a position in the map.
\<close>

fun containing :: "Address \<Rightarrow> 'v RangeMap \<Rightarrow> nat option" where
  "containing a [] = None"
| "containing a (e # es) =
     (if contains (fst e) a then Some 0 else map_option Suc (containing a es))"


section \<open>Example inputs\<close>






text \<open>
  A profile with one memory object: an entry with two branches into the symbol
  \<open>main\<close> and an entry without branches.
\<close>

definition fixup_example :: ProfilePrivate where
  "fixup_example =
     \<lparr>memoryObjects =
        [(Range2 0x400000 0x500000,
          \<lparr>fileName = ''a.out'',
           entries = [(0x402005, \<lparr>count = 0, branches = [(0x401010, 2), (0x401018, 3)]\<rparr>),
                      (0x403000, \<lparr>count = 7, branches = []\<rparr>)]\<rparr>)],
      symbols = [(Range2 0x401000 0x401020, \<lparr>name = ''main''\<rparr>)],
      mmapEventCount = 1, goodSamplesCount = 7, badSamplesCount = 0\<rparr>"



section \<open>Branch fixup keeps counts and weights\<close>

lemma sum_amap_insert:
  "map_of es k = None \<Longrightarrow>
   sum_list (map snd (amap_insert k v es)) = sum_list (map snd es) + (v::64 word)"
  by (induction es) (auto split: if_splits)

lemma sum_amap_modify:
  "map_of es k = Some w \<Longrightarrow>
   sum_list (map snd (amap_modify k (\<lambda>w. w + c) es)) = sum_list (map snd es) + (c::64 word)"
  by (induction es) (auto split: if_splits)

lemma count_appendBranch: "count (EntryData_appendBranch a c e) = count e"
  by (simp add: EntryData_appendBranch_def split: option.splits)

lemma sum_appendBranch:
  "sum_list (map snd (branches (EntryData_appendBranch a c e)))
     = sum_list (map snd (branches e)) + c"
  by (simp add: EntryData_appendBranch_def sum_amap_insert sum_amap_modify split: option.splits)

lemma count_fixupBranch: "count (fixupBranch syms fe b) = count fe"
  by (simp add: fixupBranch_def count_appendBranch split: option.splits)

lemma sum_fixupBranch:
  "sum_list (map snd (branches (fixupBranch syms fe b)))
     = sum_list (map snd (branches fe)) + snd b"
  by (simp add: fixupBranch_def sum_appendBranch split: option.splits)

lemma count_foldl_fixup: "count (foldl (fixupBranch syms) fe bs) = count fe"
  by (induction bs arbitrary: fe) (simp_all add: count_fixupBranch)

lemma sum_foldl_fixup:
  "sum_list (map snd (branches (foldl (fixupBranch syms) fe bs)))
     = sum_list (map snd (branches fe)) + sum_list (map snd bs)"
  by (induction bs arbitrary: fe) (simp_all add: sum_fixupBranch add.assoc)

lemma count_fixupEntry: "count (fixupEntry syms e) = count e"
  by (simp add: fixupEntry_def count_foldl_fixup EntryData_new_def)

lemma sum_fixupEntry:
  "sum_list (map snd (branches (fixupEntry syms e))) = sum_list (map snd (branches e))"
  by (simp add: fixupEntry_def sum_foldl_fixup EntryData_new_def)

lemma fixupEntry_no_branches: "branches e = [] \<Longrightarrow> fixupEntry syms e = e"
  by (simp add: fixupEntry_def)

text \<open>
  Claim C9. \<open>Profile::fixupBranches\<close> leaves the symbol table, the counters, the
  ranges and file names of the memory objects and the addresses of their entries as
  they are. For every entry the sample count is unchanged and the sum of its branch
  weights (in 64-bit arithmetic, as the code adds them) is unchanged; an entry without
  branches is returned as it was.
\<close>

theorem fixupBranches_frame:
  "symbols (Profile_fixupBranches d) = symbols d \<and>
   mmapEventCount (Profile_fixupBranches d) = mmapEventCount d \<and>
   goodSamplesCount (Profile_fixupBranches d) = goodSamplesCount d \<and>
   badSamplesCount (Profile_fixupBranches d) = badSamplesCount d \<and>
   map fst (memoryObjects (Profile_fixupBranches d)) = map fst (memoryObjects d) \<and>
   (\<forall>j < length (memoryObjects d).
      let obj = snd (memoryObjects d ! j);
          obj' = snd (memoryObjects (Profile_fixupBranches d) ! j)
      in fileName obj' = fileName obj \<and>
         map fst (entries obj') = map fst (entries obj) \<and>
         (\<forall>i < length (entries obj).
            let e = snd (entries obj ! i); e' = snd (entries obj' ! i)
            in count e' = count e \<and>
               sum_list (map snd (branches e')) = sum_list (map snd (branches e)) \<and>
               (branches e = [] \<longrightarrow> e' = e)))"
  by (simp add: Profile_fixupBranches_def MemoryObjectData_fixupBranches_def Let_def
        count_fixupEntry sum_fixupEntry fixupEntry_no_branches comp_def)

theorem fixupBranches_frame_witness:
  "0 < length (memoryObjects fixup_example) \<and>
   0 < length (entries (snd (memoryObjects fixup_example ! 0))) \<and>
   branches (snd (entries (snd (memoryObjects fixup_example ! 0)) ! 1)) = [] \<and>
   count (snd (entries (snd (memoryObjects (Profile_fixupBranches fixup_example) ! 0)) ! 0))
     = 0 \<and>
   sum_list (map snd (branches (snd (entries (snd (memoryObjects
     (Profile_fixupBranches fixup_example) ! 0)) ! 0)))) = 5 \<and>
   snd (entries (snd (memoryObjects (Profile_fixupBranches fixup_example) ! 0)) ! 1)
     = \<lparr>count = 7, branches = []\<rparr>"
  using fixupBranches_frame [of fixup_example]
  by (simp add: fixup_example_def Let_def All_less_Suc Profile_fixupBranches_def
        MemoryObjectData_fixupBranches_def)

section \<open>Lookup and insertion in a map keyed by ranges\<close>








lemma rmap_insert_Nil: "rmap_insert kv [] = ([kv], 0, True)"
  by (simp add: rmap_insert_def)

lemma rmap_insert_Cons:
  "rmap_insert kv (e # es) =
     (if range_less (fst kv) (fst e) then (kv # e # es, 0, True)
      else if es = [] \<or> range_less (fst kv) (fst (hd es)) then
        (if range_less (fst e) (fst kv) then (e # kv # es, 1, True) else (e # es, 0, False))
      else (e # fst (rmap_insert kv es), Suc (fst (snd (rmap_insert kv es))),
            snd (snd (rmap_insert kv es))))"
proof (cases es)
  case Nil
  then show ?thesis by (simp add: rmap_insert_def)
next
  case (Cons e' es')
  show ?thesis
  proof (cases "range_less (fst kv) (fst e)")
    case True
    then show ?thesis by (simp add: rmap_insert_def)
  next
    case False
    note nke = False
    show ?thesis
    proof (cases "range_less (fst kv) (fst e')")
      case True
      with nke Cons show ?thesis by (simp add: rmap_insert_def)
    next
      case False
      with nke Cons show ?thesis by (simp add: rmap_insert_def Let_def)
    qed
  qed
qed





lemma rmap_insert_subset: "set (fst (rmap_insert kv m)) \<subseteq> insert kv (set m)"
  by (induction m) (auto simp: rmap_insert_Nil rmap_insert_Cons)






section \<open>Every sample is counted once\<close>


















section \<open>Branch targets after fixup\<close>



lemma keys_amap_insert:
  "map_of es a = None \<Longrightarrow> fst ` set (amap_insert a c es) = insert a (fst ` set es)"
  by (induction es) (auto split: if_splits)

lemma distinct_amap_insert:
  "map_of es a = None \<Longrightarrow> distinct (map fst es) \<Longrightarrow> distinct (map fst (amap_insert a c es))"
proof (induction es)
  case Nil
  then show ?case by simp
next
  case (Cons e es)
  from Cons.prems have n: "map_of es a = None" and ne: "fst e \<noteq> a"
    by (auto split: if_splits)
  from Cons.prems have d: "distinct (map fst es)" and ni: "fst e \<notin> set (map fst es)" by simp_all
  from n have "a \<notin> fst ` set es" by (simp add: map_of_eq_None_iff)
  with Cons.IH [OF n d] d ni ne keys_amap_insert [OF n, of c] show ?case
    by (auto split: if_splits)
qed

lemma keys_amap_modify: "map fst (amap_modify a f es) = map fst es"
  by (induction es) auto


lemma distinct_appendBranch:
  "distinct (map fst (branches e)) \<Longrightarrow> distinct (map fst (branches (EntryData_appendBranch a c e)))"
  by (auto simp: EntryData_appendBranch_def distinct_amap_insert keys_amap_modify
      split: option.splits)



lemma fixupBranch_snap:
  "fixupBranch syms fe br = EntryData_appendBranch (snap syms (fst br)) (snd br) fe"
  by (simp add: fixupBranch_def snap_def split: option.splits)

lemma distinct_foldl_fixup:
  "distinct (map fst (branches fe)) \<Longrightarrow>
   distinct (map fst (branches (foldl (fixupBranch syms) fe bs)))"
proof (induction bs arbitrary: fe)
  case Nil
  then show ?case by simp
next
  case (Cons b bs)
  from Cons.prems have "distinct (map fst (branches (fixupBranch syms fe b)))"
    by (simp add: fixupBranch_snap distinct_appendBranch)
  from Cons.IH [OF this] show ?case by simp
qed











lemma fixupEntry_distinct:
  "distinct (map fst (branches e)) \<Longrightarrow> distinct (map fst (branches (fixupEntry syms e)))"
  by (simp add: fixupEntry_def distinct_foldl_fixup EntryData_new_def)




section \<open>The walk over the call chain\<close>




lemma containing_Some: "containing a m = Some i \<Longrightarrow> i < length m \<and> contains (fst (m ! i)) a"
  by (induction m arbitrary: i) (auto split: if_splits)








end
